theory Spec2Isabelle
  imports Main "HOL-Library.Sublist"
begin

section \<open>Text, exceptions and decoded JSON\<close>

text \<open>
  Python text is a \<^typ>\<open>string\<close>. Text outside ASCII (the native-script words of the
  language table) is written as the bytes of its UTF-8 encoding, as in the source file.
  An exception is a value of \<open>py_error\<close>; a computation that may raise returns
  \<open>py_error + 'a\<close>, with \<open>Inl\<close> for the exception.
\<close>

datatype py_error =
    ValueError
  | TypeError
  | JSONDecodeError
  | KeyError string
  | CollaboratorError string

text \<open>
  What \<open>json.loads\<close> returns: \<open>None\<close>, a bool, an int, a float, a str, a list or a
  dict. A dict is the list of its items in insertion order.
\<close>

datatype pyfloat = Finite int int | PosInf | NegInf | NaN

datatype json =
    JNull
  | JBool bool
  | JInt int
  | JFloat pyfloat
  | JStr string
  | JArr "json list"
  | JObj "(string \<times> json) list"

text \<open>
  The functions of Python's standard library that the program calls and whose behaviour
  depends on Unicode tables or on the JSON grammar are parameters of the model:
  \<open>str.lower\<close>, \<open>str.strip\<close> (no argument) and \<open>json.loads\<close>.
\<close>

record pylib =
  str_lower :: "string \<Rightarrow> string"
  str_strip :: "string \<Rightarrow> string"
  json_loads :: "string \<Rightarrow> py_error + json"

subsection \<open>String operations of the parser\<close>

text \<open>
  \<open>s.replace(old, new)\<close>: the occurrences of \<open>old\<close> are replaced from left to right,
  without overlap. The source calls it with non-empty literals only; on an empty \<open>old\<close>
  this definition copies \<open>s\<close>.
\<close>

function replace :: "string \<Rightarrow> string \<Rightarrow> string \<Rightarrow> string" where
  "replace old new [] = []"
| "replace old new (c # cs) =
     (if old \<noteq> [] \<and> prefix old (c # cs)
      then new @ replace old new (drop (length old) (c # cs))
      else c # replace old new cs)"
  by pat_completeness auto
termination
  by (relation "measure (\<lambda>(old, new, s). length s)") (auto simp: neq_Nil_conv)

text \<open>\<open>s.index(c)\<close> and \<open>s.rindex(c)\<close> for a one-character \<open>c\<close>: ValueError when absent.\<close>

fun index :: "string \<Rightarrow> char \<Rightarrow> py_error + nat" where
  "index [] c = Inl ValueError"
| "index (x # xs) c =
     (if x = c then Inr 0
      else (case index xs c of Inl e \<Rightarrow> Inl e | Inr i \<Rightarrow> Inr (Suc i)))"

fun rindex :: "string \<Rightarrow> char \<Rightarrow> py_error + nat" where
  "rindex [] c = Inl ValueError"
| "rindex (x # xs) c =
     (case rindex xs c of
        Inr i \<Rightarrow> Inr (Suc i)
      | Inl e \<Rightarrow> (if x = c then Inr 0 else Inl e))"

text \<open>\<open>s[i:j]\<close> for \<open>0 \<le> i\<close> and \<open>0 \<le> j\<close>: empty when \<open>j \<le> i\<close>.\<close>

definition slice :: "string \<Rightarrow> nat \<Rightarrow> nat \<Rightarrow> string" where
  "slice s i j = take (j - i) (drop i s)"

text \<open>\<open>sub in s\<close> for two strs.\<close>

fun contains :: "string \<Rightarrow> string \<Rightarrow> bool" where
  "contains sub [] = (sub = [])"
| "contains sub (c # cs) = (prefix sub (c # cs) \<or> contains sub cs)"

subsection \<open>Membership test on a decoded value\<close>

text \<open>
  \<open>field in assessment\<close>: key membership on a dict, element membership on a list,
  substring on a str, TypeError on \<open>None\<close>, a bool, an int or a float.
\<close>

fun py_in :: "string \<Rightarrow> json \<Rightarrow> py_error + bool" where
  "py_in f (JObj kvs) = Inr (f \<in> set (map fst kvs))"
| "py_in f (JArr xs) = Inr (JStr f \<in> set xs)"
| "py_in f (JStr s) = Inr (contains f s)"
| "py_in f JNull = Inl TypeError"
| "py_in f (JBool b) = Inl TypeError"
| "py_in f (JInt i) = Inl TypeError"
| "py_in f (JFloat x) = Inl TypeError"

text \<open>\<open>all(field in assessment for field in fields)\<close>: stops at the first False.\<close>

fun all_in :: "string list \<Rightarrow> json \<Rightarrow> py_error + bool" where
  "all_in [] a = Inr True"
| "all_in (f # fs) a =
     (case py_in f a of
        Inl e \<Rightarrow> Inl e
      | Inr b \<Rightarrow> (if b then all_in fs a else Inr False))"

definition required_fields :: "string list" where
  "required_fields =
     [''score'', ''stars'', ''message'', ''what_you_did_well'', ''improvement_tip'']"

section \<open>The assessment step of \<open>ConversationManager.get_response\<close>\<close>

text \<open>The assessment returned when no candidate is found or a required field is missing.\<close>

definition default_assessment :: json where
  "default_assessment = JObj
     [(''score'', JInt 85),
      (''stars'', JInt 4),
      (''message'', JStr ''Great job! You completed the practice session.''),
      (''what_you_did_well'',
         JStr ''You engaged well in the conversation and showed good understanding of the topic.''),
      (''improvement_tip'', JObj
         [(''what_they_said'', JStr ''Your responses''),
          (''better_way'', JStr ''More natural phrasing with complete sentences''),
          (''explanation'', JStr ''Practice using full, polite sentences in conversation'')])]"

text \<open>The assessment returned by the \<open>except Exception\<close> handler.\<close>

definition except_assessment :: json where
  "except_assessment = JObj
     [(''score'', JInt 80),
      (''stars'', JInt 4),
      (''message'', JStr ''Well done! You completed the practice session.''),
      (''what_you_did_well'',
         JStr ''You participated actively and showed effort in practicing.''),
      (''improvement_tip'', JObj
         [(''what_they_said'', JStr ''Your conversation''),
          (''better_way'', JStr ''More detailed responses''),
          (''explanation'', JStr ''Try to elaborate more on your answers'')])]"

text \<open>
  The outcome of one call of the language model, \<open>model.generate_content(p).text\<close>:
  it raises, or it returns a text. The outcome is an input of the model: the collaborator
  is remote and need not answer the same prompt twice alike.
\<close>

datatype llm_reply = Raises py_error | Returns string

text \<open>
  Lines 244 to 269, from the raw text of the assessment reply to the value the \<open>try\<close>
  block returns.
\<close>

definition clean_text :: "pylib \<Rightarrow> string \<Rightarrow> string" where
  "clean_text L raw =
     str_strip L (replace ''```'' '''' (replace ''```json'' '''' (str_strip L raw)))"

definition parse_text :: "pylib \<Rightarrow> string \<Rightarrow> py_error + json" where
  "parse_text L raw =
     (let assessment_text = clean_text L raw in
      if CHR ''{'' \<in> set assessment_text \<and> CHR ''}'' \<in> set assessment_text then
        (case index assessment_text (CHR ''{'') of
           Inl e \<Rightarrow> Inl e
         | Inr json_start \<Rightarrow>
        (case rindex assessment_text (CHR ''}'') of
           Inl e \<Rightarrow> Inl e
         | Inr r \<Rightarrow>
        (let json_end = r + 1;
             json_str = slice assessment_text json_start json_end in
         case json_loads L json_str of
           Inl e \<Rightarrow> Inl e
         | Inr assessment \<Rightarrow>
        (case all_in required_fields assessment of
           Inl e \<Rightarrow> Inl e
         | Inr b \<Rightarrow> (if b then Inr assessment else Inr default_assessment)))))
      else Inr default_assessment)"

text \<open>The \<open>try\<close> block (lines 243 to 269) and the whole \<open>try\<close>/\<open>except\<close> statement.\<close>

definition assessment_try :: "pylib \<Rightarrow> llm_reply \<Rightarrow> py_error + json" where
  "assessment_try L r =
     (case r of Raises e \<Rightarrow> Inl e | Returns raw \<Rightarrow> parse_text L raw)"

definition final_assessment :: "pylib \<Rightarrow> llm_reply \<Rightarrow> json" where
  "final_assessment L r =
     (case assessment_try L r of Inl e \<Rightarrow> except_assessment | Inr a \<Rightarrow> a)"

section \<open>Language configurations\<close>

text \<open>One entry of \<open>language_configs\<close> in \<open>get_system_prompt\<close>.\<close>

record config =
  name :: string
  instruction :: string
  aspects :: string

definition english_config :: config where
  "english_config = \<lparr>
     name =
       ''English'',
     instruction =
       ''Respond in English'',
     aspects =
       ''pronunciation, grammar, and vocabulary''\<rparr>"

definition hindi_config :: config where
  "hindi_config = \<lparr>
     name =
       ''Hindi ('' @
       [CHR 0xE0, CHR 0xA4, CHR 0xB9, CHR 0xE0, CHR 0xA4, CHR 0xBF, CHR 0xE0, CHR 0xA4, CHR 0x82] @
       [CHR 0xE0, CHR 0xA4, CHR 0xA6, CHR 0xE0, CHR 0xA5, CHR 0x80] @
       '')'',
     instruction =
       ''Respond in Hindi (Devanagari script). Use simple, conversational Hindi'' @
       '' that a learner would understand.'',
     aspects =
       ''pronunciation ('' @
       [CHR 0xE0, CHR 0xA4, CHR 0x89, CHR 0xE0, CHR 0xA4, CHR 0x9A, CHR 0xE0, CHR 0xA5, CHR 0x8D] @
       [CHR 0xE0, CHR 0xA4, CHR 0x9A, CHR 0xE0, CHR 0xA4, CHR 0xBE, CHR 0xE0, CHR 0xA4, CHR 0xB0] @
       [CHR 0xE0, CHR 0xA4, CHR 0xA3] @
       ''), grammar ('' @
       [CHR 0xE0, CHR 0xA4, CHR 0xB5, CHR 0xE0, CHR 0xA5, CHR 0x8D, CHR 0xE0, CHR 0xA4, CHR 0xAF] @
       [CHR 0xE0, CHR 0xA4, CHR 0xBE, CHR 0xE0, CHR 0xA4, CHR 0x95, CHR 0xE0, CHR 0xA4, CHR 0xB0] @
       [CHR 0xE0, CHR 0xA4, CHR 0xA3] @
       ''), and vocabulary ('' @
       [CHR 0xE0, CHR 0xA4, CHR 0xB6, CHR 0xE0, CHR 0xA4, CHR 0xAC, CHR 0xE0, CHR 0xA5, CHR 0x8D] @
       [CHR 0xE0, CHR 0xA4, CHR 0xA6, CHR 0xE0, CHR 0xA4, CHR 0xBE, CHR 0xE0, CHR 0xA4, CHR 0xB5] @
       [CHR 0xE0, CHR 0xA4, CHR 0xB2, CHR 0xE0, CHR 0xA5, CHR 0x80] @
       '')''\<rparr>"

definition kannada_config :: config where
  "kannada_config = \<lparr>
     name =
       ''Kannada ('' @
       [CHR 0xE0, CHR 0xB2, CHR 0x95, CHR 0xE0, CHR 0xB2, CHR 0xA8, CHR 0xE0, CHR 0xB3, CHR 0x8D] @
       [CHR 0xE0, CHR 0xB2, CHR 0xA8, CHR 0xE0, CHR 0xB2, CHR 0xA1] @
       '')'',
     instruction =
       ''Respond in Kannada (Kannada script). Use simple, conversational Kannad'' @
       ''a that a learner would understand.'',
     aspects =
       ''pronunciation ('' @
       [CHR 0xE0, CHR 0xB2, CHR 0x89, CHR 0xE0, CHR 0xB2, CHR 0x9A, CHR 0xE0, CHR 0xB3, CHR 0x8D] @
       [CHR 0xE0, CHR 0xB2, CHR 0x9A, CHR 0xE0, CHR 0xB2, CHR 0xBE, CHR 0xE0, CHR 0xB2, CHR 0xB0] @
       [CHR 0xE0, CHR 0xB2, CHR 0xA3, CHR 0xE0, CHR 0xB3, CHR 0x86] @
       ''), grammar ('' @
       [CHR 0xE0, CHR 0xB2, CHR 0xB5, CHR 0xE0, CHR 0xB3, CHR 0x8D, CHR 0xE0, CHR 0xB2, CHR 0xAF] @
       [CHR 0xE0, CHR 0xB2, CHR 0xBE, CHR 0xE0, CHR 0xB2, CHR 0x95, CHR 0xE0, CHR 0xB2, CHR 0xB0] @
       [CHR 0xE0, CHR 0xB2, CHR 0xA3] @
       ''), and vocabulary ('' @
       [CHR 0xE0, CHR 0xB2, CHR 0xB6, CHR 0xE0, CHR 0xB2, CHR 0xAC, CHR 0xE0, CHR 0xB3, CHR 0x8D] @
       [CHR 0xE0, CHR 0xB2, CHR 0xA6, CHR 0xE0, CHR 0xB2, CHR 0x95, CHR 0xE0, CHR 0xB3, CHR 0x8B] @
       [CHR 0xE0, CHR 0xB2, CHR 0xB6] @
       '')''\<rparr>"

definition tamil_config :: config where
  "tamil_config = \<lparr>
     name =
       ''Tamil ('' @
       [CHR 0xE0, CHR 0xAE, CHR 0xA4, CHR 0xE0, CHR 0xAE, CHR 0xAE, CHR 0xE0, CHR 0xAE, CHR 0xBF] @
       [CHR 0xE0, CHR 0xAE, CHR 0xB4, CHR 0xE0, CHR 0xAF, CHR 0x8D] @
       '')'',
     instruction =
       ''Respond in Tamil (Tamil script). Use simple, conversational Tamil that'' @
       '' a learner would understand.'',
     aspects =
       ''pronunciation ('' @
       [CHR 0xE0, CHR 0xAE, CHR 0x89, CHR 0xE0, CHR 0xAE, CHR 0x9A, CHR 0xE0, CHR 0xAF, CHR 0x8D] @
       [CHR 0xE0, CHR 0xAE, CHR 0x9A, CHR 0xE0, CHR 0xAE, CHR 0xB0, CHR 0xE0, CHR 0xAE, CHR 0xBF] @
       [CHR 0xE0, CHR 0xAE, CHR 0xAA, CHR 0xE0, CHR 0xAF, CHR 0x8D, CHR 0xE0, CHR 0xAE, CHR 0xAA] @
       [CHR 0xE0, CHR 0xAF, CHR 0x81] @
       ''), grammar ('' @
       [CHR 0xE0, CHR 0xAE, CHR 0x87, CHR 0xE0, CHR 0xAE, CHR 0xB2, CHR 0xE0, CHR 0xAE, CHR 0x95] @
       [CHR 0xE0, CHR 0xAF, CHR 0x8D, CHR 0xE0, CHR 0xAE, CHR 0x95, CHR 0xE0, CHR 0xAE, CHR 0xA3] @
       [CHR 0xE0, CHR 0xAE, CHR 0xAE, CHR 0xE0, CHR 0xAF, CHR 0x8D] @
       ''), and vocabulary ('' @
       [CHR 0xE0, CHR 0xAE, CHR 0x9A, CHR 0xE0, CHR 0xAF, CHR 0x8A, CHR 0xE0, CHR 0xAE, CHR 0xB2] @
       [CHR 0xE0, CHR 0xAF, CHR 0x8D, CHR 0xE0, CHR 0xAE, CHR 0xB5, CHR 0xE0, CHR 0xAE, CHR 0xB3] @
       [CHR 0xE0, CHR 0xAE, CHR 0xAE, CHR 0xE0, CHR 0xAF, CHR 0x8D] @
       '')''\<rparr>"

definition telugu_config :: config where
  "telugu_config = \<lparr>
     name =
       ''Telugu ('' @
       [CHR 0xE0, CHR 0xB0, CHR 0xA4, CHR 0xE0, CHR 0xB1, CHR 0x86, CHR 0xE0, CHR 0xB0, CHR 0xB2] @
       [CHR 0xE0, CHR 0xB1, CHR 0x81, CHR 0xE0, CHR 0xB0, CHR 0x97, CHR 0xE0, CHR 0xB1, CHR 0x81] @
       '')'',
     instruction =
       ''Respond in Telugu (Telugu script). Use simple, conversational Telugu t'' @
       ''hat a learner would understand.'',
     aspects =
       ''pronunciation ('' @
       [CHR 0xE0, CHR 0xB0, CHR 0x89, CHR 0xE0, CHR 0xB0, CHR 0x9A, CHR 0xE0, CHR 0xB1, CHR 0x8D] @
       [CHR 0xE0, CHR 0xB0, CHR 0x9A, CHR 0xE0, CHR 0xB0, CHR 0xBE, CHR 0xE0, CHR 0xB0, CHR 0xB0] @
       [CHR 0xE0, CHR 0xB0, CHR 0xA3] @
       ''), grammar ('' @
       [CHR 0xE0, CHR 0xB0, CHR 0xB5, CHR 0xE0, CHR 0xB1, CHR 0x8D, CHR 0xE0, CHR 0xB0, CHR 0xAF] @
       [CHR 0xE0, CHR 0xB0, CHR 0xBE, CHR 0xE0, CHR 0xB0, CHR 0x95, CHR 0xE0, CHR 0xB0, CHR 0xB0] @
       [CHR 0xE0, CHR 0xB0, CHR 0xA3, CHR 0xE0, CHR 0xB0, CHR 0x82] @
       ''), and vocabulary ('' @
       [CHR 0xE0, CHR 0xB0, CHR 0xAA, CHR 0xE0, CHR 0xB0, CHR 0xA6, CHR 0xE0, CHR 0xB0, CHR 0x95] @
       [CHR 0xE0, CHR 0xB1, CHR 0x8B, CHR 0xE0, CHR 0xB0, CHR 0xB6, CHR 0xE0, CHR 0xB0, CHR 0x82] @
       '')''\<rparr>"

definition malayalam_config :: config where
  "malayalam_config = \<lparr>
     name =
       ''Malayalam ('' @
       [CHR 0xE0, CHR 0xB4, CHR 0xAE, CHR 0xE0, CHR 0xB4, CHR 0xB2, CHR 0xE0, CHR 0xB4, CHR 0xAF] @
       [CHR 0xE0, CHR 0xB4, CHR 0xBE, CHR 0xE0, CHR 0xB4, CHR 0xB3, CHR 0xE0, CHR 0xB4, CHR 0x82] @
       '')'',
     instruction =
       ''Respond in Malayalam (Malayalam script). Use simple, conversational Ma'' @
       ''layalam that a learner would understand.'',
     aspects =
       ''pronunciation ('' @
       [CHR 0xE0, CHR 0xB4, CHR 0x89, CHR 0xE0, CHR 0xB4, CHR 0x9A, CHR 0xE0, CHR 0xB5, CHR 0x8D] @
       [CHR 0xE0, CHR 0xB4, CHR 0x9A, CHR 0xE0, CHR 0xB4, CHR 0xBE, CHR 0xE0, CHR 0xB4, CHR 0xB0] @
       [CHR 0xE0, CHR 0xB4, CHR 0xA3, CHR 0xE0, CHR 0xB4, CHR 0x82] @
       ''), grammar ('' @
       [CHR 0xE0, CHR 0xB4, CHR 0xB5, CHR 0xE0, CHR 0xB5, CHR 0x8D, CHR 0xE0, CHR 0xB4, CHR 0xAF] @
       [CHR 0xE0, CHR 0xB4, CHR 0xBE, CHR 0xE0, CHR 0xB4, CHR 0x95, CHR 0xE0, CHR 0xB4, CHR 0xB0] @
       [CHR 0xE0, CHR 0xB4, CHR 0xA3, CHR 0xE0, CHR 0xB4, CHR 0x82] @
       ''), and vocabulary ('' @
       [CHR 0xE0, CHR 0xB4, CHR 0xAA, CHR 0xE0, CHR 0xB4, CHR 0xA6, CHR 0xE0, CHR 0xB4, CHR 0xB8] @
       [CHR 0xE0, CHR 0xB4, CHR 0xAE, CHR 0xE0, CHR 0xB5, CHR 0x8D, CHR 0xE0, CHR 0xB4, CHR 0xAA] @
       [CHR 0xE0, CHR 0xB4, CHR 0xA4, CHR 0xE0, CHR 0xB5, CHR 0x8D, CHR 0xE0, CHR 0xB4, CHR 0xA4] @
       [CHR 0xE0, CHR 0xB5, CHR 0x8D] @
       '')''\<rparr>"

definition bengali_config :: config where
  "bengali_config = \<lparr>
     name =
       ''Bengali ('' @
       [CHR 0xE0, CHR 0xA6, CHR 0xAC, CHR 0xE0, CHR 0xA6, CHR 0xBE, CHR 0xE0, CHR 0xA6, CHR 0x82] @
       [CHR 0xE0, CHR 0xA6, CHR 0xB2, CHR 0xE0, CHR 0xA6, CHR 0xBE] @
       '')'',
     instruction =
       ''Respond in Bengali (Bengali script). Use simple, conversational Bengal'' @
       ''i that a learner would understand.'',
     aspects =
       ''pronunciation ('' @
       [CHR 0xE0, CHR 0xA6, CHR 0x89, CHR 0xE0, CHR 0xA6, CHR 0x9A, CHR 0xE0, CHR 0xA7, CHR 0x8D] @
       [CHR 0xE0, CHR 0xA6, CHR 0x9A, CHR 0xE0, CHR 0xA6, CHR 0xBE, CHR 0xE0, CHR 0xA6, CHR 0xB0] @
       [CHR 0xE0, CHR 0xA6, CHR 0xA3] @
       ''), grammar ('' @
       [CHR 0xE0, CHR 0xA6, CHR 0xAC, CHR 0xE0, CHR 0xA7, CHR 0x8D, CHR 0xE0, CHR 0xA6, CHR 0xAF] @
       [CHR 0xE0, CHR 0xA6, CHR 0xBE, CHR 0xE0, CHR 0xA6, CHR 0x95, CHR 0xE0, CHR 0xA6, CHR 0xB0] @
       [CHR 0xE0, CHR 0xA6, CHR 0xA3] @
       ''), and vocabulary ('' @
       [CHR 0xE0, CHR 0xA6, CHR 0xB6, CHR 0xE0, CHR 0xA6, CHR 0xAC, CHR 0xE0, CHR 0xA7, CHR 0x8D] @
       [CHR 0xE0, CHR 0xA6, CHR 0xA6, CHR 0xE0, CHR 0xA6, CHR 0xAD, CHR 0xE0, CHR 0xA6, CHR 0xBE] @
       [CHR 0xE0, CHR 0xA6, CHR 0xA3, CHR 0xE0, CHR 0xA7, CHR 0x8D, CHR 0xE0, CHR 0xA6, CHR 0xA1] @
       [CHR 0xE0, CHR 0xA6, CHR 0xBE, CHR 0xE0, CHR 0xA6, CHR 0xB0] @
       '')''\<rparr>"

definition language_configs :: "(string \<times> config) list" where
  "language_configs =
     [(''english'', english_config),
      (''hindi'', hindi_config),
      (''kannada'', kannada_config),
      (''tamil'', tamil_config),
      (''telugu'', telugu_config),
      (''malayalam'', malayalam_config),
      (''bengali'', bengali_config)]"

text \<open>\<open>d.get(key, default)\<close> on a dict given as the list of its items.\<close>

definition dict_get :: "(string \<times> 'v) list \<Rightarrow> string \<Rightarrow> 'v \<Rightarrow> 'v" where
  "dict_get d key dflt = (case map_of d key of None \<Rightarrow> dflt | Some v \<Rightarrow> v)"

text \<open>
  Line 161: \<open>config = language_configs.get(self.language, language_configs['english'])\<close>.
\<close>

definition get_config :: "string \<Rightarrow> py_error + config" where
  "get_config lang =
     (case map_of language_configs ''english'' of
        None \<Rightarrow> Inl (KeyError ''english'')
      | Some dflt \<Rightarrow> Inr (dict_get language_configs lang dflt))"

section \<open>The conversation: \<open>ConversationManager\<close>\<close>

text \<open>One entry of \<open>history\<close>: the dict \<open>{"role": r, "content": c}\<close>.\<close>

record turn =
  role :: string
  content :: string

record session =
  topic :: string
  lesson_content :: string
  language :: string
  history :: "turn list"
  turn_count :: int
  max_turns :: int

definition ConversationManager :: "pylib \<Rightarrow> string \<Rightarrow> string \<Rightarrow> string \<Rightarrow> session" where
  "ConversationManager L tp lc lang = \<lparr>
     topic = tp,
     lesson_content = lc,
     language = str_lower L lang,
     history = [],
     turn_count = 0,
     max_turns = 10\<rparr>"

definition add_message :: "string \<Rightarrow> string \<Rightarrow> session \<Rightarrow> session" where
  "add_message r c s =
     (let s1 = s\<lparr>history := history s @ [\<lparr>role = r, content = c\<rparr>]\<rparr> in
      if r = ''user'' then s1\<lparr>turn_count := turn_count s1 + 1\<rparr> else s1)"

text \<open>
  What \<open>get_response\<close> returns: \<open>{"is_final": False, "message": m}\<close> or
  \<open>{"is_final": True, "assessment": a}\<close>.
\<close>

datatype turn_result = Message string | Final json

fun is_final :: "turn_result \<Rightarrow> bool" where
  "is_final (Message m) = False"
| "is_final (Final a) = True"

text \<open>
  \<open>get_response\<close>. \<open>chat\<close> is the outcome of the call at line 216 and \<open>assess\<close>
  the outcome of the call at line 243, which is made on a final turn only. The prompts
  are built from the conversation without changing it, and the replies do not depend on
  them in the model. The result pairs what the method returns or raises with the
  conversation it leaves behind.
\<close>

definition get_response ::
  "pylib \<Rightarrow> llm_reply \<Rightarrow> llm_reply \<Rightarrow> string \<Rightarrow> session \<Rightarrow>
     (py_error + turn_result) \<times> session" where
  "get_response L chat assess user_message s =
     (let s1 = add_message ''user'' user_message s in
      case chat of
        Raises e \<Rightarrow> (Inl e, s1)
      | Returns text \<Rightarrow>
          (let assistant_message = str_strip L text;
               s2 = add_message ''assistant'' assistant_message s1 in
           if turn_count s2 \<ge> max_turns s2
           then (Inr (Final (final_assessment L assess)), s2)
           else (Inr (Message assistant_message), s2)))"

section \<open>The registry \<open>conversations\<close> and the request handlers\<close>

type_synonym registry = "string \<rightharpoonup> session"

text \<open>
  The JSON bodies the handlers answer with. \<open>ErrorResponse code e\<close> is
  \<open>{'status': 'error', 'message': str(e)}\<close> sent with the HTTP status \<open>code\<close>.
\<close>

datatype http_response =
    StartSuccess string string "string option"
  | SendSuccess turn_result "string option" int int
  | EndSuccess
  | SessionNotFound
  | ErrorResponse nat py_error

text \<open>The body of a \<open>/start_session\<close> request; three of its keys are optional.\<close>

record start_body =
  body_session_id :: string
  body_topic :: "string option"
  body_lesson_content :: "string option"
  body_language :: "string option"

definition data_get :: "'a option \<Rightarrow> 'a \<Rightarrow> 'a" where
  "data_get v dflt = (case v of None \<Rightarrow> dflt | Some x \<Rightarrow> x)"

definition greeting :: string where
  "greeting = ''Hello, I'' @ [CHR 0x27] @ ''m ready to practice!''"

text \<open>
  \<open>start_session\<close>. \<open>audio\<close> is what \<open>text_to_speech\<close> returns, the encoded speech
  or \<open>None\<close>. The conversation object is stored in the registry before
  \<open>get_response\<close> changes it in place, so the registry holds the changed object also
  when \<open>get_response\<close> raises.
\<close>

definition start_session ::
  "pylib \<Rightarrow> llm_reply \<Rightarrow> llm_reply \<Rightarrow> string option \<Rightarrow> start_body \<Rightarrow> registry \<Rightarrow>
     http_response \<times> registry" where
  "start_session L chat assess audio body conversations =
     (let session_id = body_session_id body;
          tp = data_get (body_topic body) (''Ordering at a Caf'' @ [CHR 0xC3, CHR 0xA9]);
          lc = data_get (body_lesson_content body)
                 (''Basic caf'' @ [CHR 0xC3, CHR 0xA9] @ '' ordering phrases and polite requests'');
          lang = data_get (body_language body) ''english'';
          conversation = ConversationManager L tp lc lang;
          (initial_response, conversation1) = get_response L chat assess greeting conversation;
          conversations1 = conversations(session_id \<mapsto> conversation1)
      in case initial_response of
           Inl e \<Rightarrow> (ErrorResponse 500 e, conversations1)
         | Inr (Message m) \<Rightarrow> (StartSuccess session_id m audio, conversations1)
         | Inr (Final a) \<Rightarrow> (ErrorResponse 500 (KeyError ''message''), conversations1))"

text \<open>\<open>send_message\<close>: speech is synthesised for a non-final reply only.\<close>

definition send_message ::
  "pylib \<Rightarrow> llm_reply \<Rightarrow> llm_reply \<Rightarrow> string option \<Rightarrow> string \<Rightarrow> string \<Rightarrow> registry \<Rightarrow>
     http_response \<times> registry" where
  "send_message L chat assess audio session_id user_message conversations =
     (case conversations session_id of
        None \<Rightarrow> (SessionNotFound, conversations)
      | Some conversation \<Rightarrow>
          (let (response, conversation1) = get_response L chat assess user_message conversation;
               conversations1 = conversations(session_id \<mapsto> conversation1)
           in case response of
                Inl e \<Rightarrow> (ErrorResponse 200 e, conversations1)
              | Inr r \<Rightarrow>
                  (SendSuccess r (if \<not> is_final r then audio else None)
                     (turn_count conversation1) (max_turns conversation1),
                   conversations1)))"

definition end_session :: "string \<Rightarrow> registry \<Rightarrow> http_response \<times> registry" where
  "end_session session_id conversations =
     (EndSuccess,
      if session_id \<in> dom conversations then conversations(session_id := None)
      else conversations)"

section \<open>A reference instance of the library functions\<close>

text \<open>
  On ASCII text \<open>str.lower\<close> maps \<open>A\<close> to \<open>Z\<close> onto \<open>a\<close> to \<open>z\<close>, and
  \<open>str.strip\<close> removes the characters 9 to 13 and 28 to 32 from both ends.
\<close>

definition lower_ascii :: "string \<Rightarrow> string" where
  "lower_ascii s =
     map (\<lambda>c. if (65::nat) \<le> of_char c \<and> of_char c \<le> (90::nat)
              then char_of (of_char c + (32::nat)) else c) s"

definition space_ascii :: "char \<Rightarrow> bool" where
  "space_ascii c =
     (((9::nat) \<le> of_char c \<and> of_char c \<le> (13::nat)) \<or>
      ((28::nat) \<le> of_char c \<and> of_char c \<le> (32::nat)))"

definition strip_ascii :: "string \<Rightarrow> string" where
  "strip_ascii s = rev (dropWhile space_ascii (rev (dropWhile space_ascii s)))"

text \<open>
  A decoder for the JSON texts made of objects, arrays, strings without escape
  sequences, integers and the literals \<open>true\<close>, \<open>false\<close> and \<open>null\<close>, following
  \<open>json.loads\<close>: whitespace is blank, tab, line feed and carriage return; a string may
  not hold a control character; a repeated key keeps its first position and its last
  value; text after the value is an error. Escape sequences, fractions, exponents and
  \<open>NaN\<close>/\<open>Infinity\<close> are outside this fragment and rejected here. The fuel counts the
  calls; each call reads at least one character, so the length of the text is enough.
\<close>

definition json_ws :: "char \<Rightarrow> bool" where
  "json_ws c = (c = CHR '' '' \<or> c = CHR 0x09 \<or> c = CHR 0x0A \<or> c = CHR 0x0D)"

definition skip_ws :: "string \<Rightarrow> string" where
  "skip_ws s = dropWhile json_ws s"

definition expect :: "char \<Rightarrow> string \<Rightarrow> string option" where
  "expect c s = (case s of [] \<Rightarrow> None | x # xs \<Rightarrow> if x = c then Some xs else None)"

fun scan_string :: "string \<Rightarrow> (string \<times> string) option" where
  "scan_string [] = None"
| "scan_string (c # cs) =
     (if c = CHR 0x22 then Some ([], cs)
      else if c = CHR 0x5C \<or> of_char c < (32::nat) then None
      else (case scan_string cs of
              None \<Rightarrow> None
            | Some (s, rest) \<Rightarrow> Some (c # s, rest)))"

definition is_digit :: "char \<Rightarrow> bool" where
  "is_digit c = ((48::nat) \<le> of_char c \<and> of_char c \<le> (57::nat))"

definition digits_value :: "string \<Rightarrow> int" where
  "digits_value ds = foldl (\<lambda>v c. 10 * v + (int (of_char c) - 48)) 0 ds"

definition scan_digits :: "string \<Rightarrow> (int \<times> string) option" where
  "scan_digits s =
     (case s of
        [] \<Rightarrow> None
      | c # cs \<Rightarrow>
          if \<not> is_digit c then None
          else (let ds = (if c = CHR ''0'' then [c] else takeWhile is_digit s);
                    rest = drop (length ds) s
                in if rest \<noteq> [] \<and> hd rest \<in> {CHR ''.'', CHR ''e'', CHR ''E''} then None
                   else Some (digits_value ds, rest)))"

definition scan_int :: "string \<Rightarrow> (int \<times> string) option" where
  "scan_int s =
     (case expect (CHR ''-'') s of
        Some s1 \<Rightarrow> (case scan_digits s1 of
                      None \<Rightarrow> None
                    | Some (v, rest) \<Rightarrow> Some (- v, rest))
      | None \<Rightarrow> scan_digits s)"

fun dict_set :: "(string \<times> json) list \<Rightarrow> string \<Rightarrow> json \<Rightarrow> (string \<times> json) list" where
  "dict_set [] k v = [(k, v)]"
| "dict_set ((k1, v1) # d) k v =
     (if k1 = k then (k, v) # d else (k1, v1) # dict_set d k v)"

fun decode_value :: "nat \<Rightarrow> string \<Rightarrow> (json \<times> string) option"
  and decode_members :: "nat \<Rightarrow> (string \<times> json) list \<Rightarrow> string \<Rightarrow> (json \<times> string) option"
  and decode_elements :: "nat \<Rightarrow> json list \<Rightarrow> string \<Rightarrow> (json \<times> string) option"
where
  "decode_value 0 s = None"
| "decode_value (Suc n) s =
     (case expect (CHR ''{'') s of
        Some s1 \<Rightarrow>
          (case expect (CHR ''}'') (skip_ws s1) of
             Some rest \<Rightarrow> Some (JObj [], rest)
           | None \<Rightarrow> decode_members n [] (skip_ws s1))
      | None \<Rightarrow>
     (case expect (CHR ''['') s of
        Some s1 \<Rightarrow>
          (case expect (CHR '']'') (skip_ws s1) of
             Some rest \<Rightarrow> Some (JArr [], rest)
           | None \<Rightarrow> decode_elements n [] (skip_ws s1))
      | None \<Rightarrow>
     (case expect (CHR 0x22) s of
        Some s1 \<Rightarrow>
          (case scan_string s1 of
             None \<Rightarrow> None
           | Some (str, rest) \<Rightarrow> Some (JStr str, rest))
      | None \<Rightarrow>
          if prefix ''null'' s then Some (JNull, drop 4 s)
          else if prefix ''true'' s then Some (JBool True, drop 4 s)
          else if prefix ''false'' s then Some (JBool False, drop 5 s)
          else (case scan_int s of
                  None \<Rightarrow> None
                | Some (i, rest) \<Rightarrow> Some (JInt i, rest)))))"
| "decode_members 0 acc s = None"
| "decode_members (Suc n) acc s =
     (case expect (CHR 0x22) s of
        None \<Rightarrow> None
      | Some s1 \<Rightarrow>
     (case scan_string s1 of
        None \<Rightarrow> None
      | Some (key, s2) \<Rightarrow>
     (case expect (CHR '':'') (skip_ws s2) of
        None \<Rightarrow> None
      | Some s3 \<Rightarrow>
     (case decode_value n (skip_ws s3) of
        None \<Rightarrow> None
      | Some (v, s4) \<Rightarrow>
     (case expect (CHR ''}'') (skip_ws s4) of
        Some rest \<Rightarrow> Some (JObj (dict_set acc key v), rest)
      | None \<Rightarrow>
     (case expect (CHR '','') (skip_ws s4) of
        None \<Rightarrow> None
      | Some s5 \<Rightarrow> decode_members n (dict_set acc key v) (skip_ws s5)))))))"
| "decode_elements 0 acc s = None"
| "decode_elements (Suc n) acc s =
     (case decode_value n s of
        None \<Rightarrow> None
      | Some (v, s1) \<Rightarrow>
     (case expect (CHR '']'') (skip_ws s1) of
        Some rest \<Rightarrow> Some (JArr (acc @ [v]), rest)
      | None \<Rightarrow>
     (case expect (CHR '','') (skip_ws s1) of
        None \<Rightarrow> None
      | Some s2 \<Rightarrow> decode_elements n (acc @ [v]) (skip_ws s2))))"

definition loads_ascii :: "string \<Rightarrow> py_error + json" where
  "loads_ascii s =
     (case decode_value (Suc (length s)) (skip_ws s) of
        None \<Rightarrow> Inl JSONDecodeError
      | Some (v, rest) \<Rightarrow> if skip_ws rest = [] then Inr v else Inl JSONDecodeError)"

definition ascii_lib :: pylib where
  "ascii_lib = \<lparr>str_lower = lower_ascii, str_strip = strip_ascii, json_loads = loads_ascii\<rparr>"

section \<open>Notions used to state the properties\<close>

text \<open>
  The candidate in the words of the specification: the substring from the first opening
  brace to the last closing brace, both included.
\<close>

definition brace_candidate :: "string \<Rightarrow> string" where
  "brace_candidate t =
     slice t (length (takeWhile (\<lambda>c. c \<noteq> CHR ''{'') t))
             (length t - length (takeWhile (\<lambda>c. c \<noteq> CHR ''}'') (rev t)))"

text \<open>
  What is asked of \<open>str.strip\<close> where the position of the braces matters: it returns
  its argument without a prefix and a suffix, and neither holds a brace.
\<close>

definition strips_outside_braces :: "(string \<Rightarrow> string) \<Rightarrow> bool" where
  "strips_outside_braces f =
     (\<forall>s. \<exists>a b. s = a @ f s @ b \<and>
        CHR ''{'' \<notin> set a \<and> CHR ''}'' \<notin> set a \<and> CHR ''{'' \<notin> set b \<and> CHR ''}'' \<notin> set b)"

text \<open>\<open>a[k]\<close> read on a decoded dict; \<open>None\<close> stands for a missing key or a non-dict.\<close>

definition dict_item :: "json \<Rightarrow> string \<Rightarrow> json option" where
  "dict_item a k = (case a of JObj kvs \<Rightarrow> map_of kvs k | _ \<Rightarrow> None)"

fun is_text :: "json option \<Rightarrow> bool" where
  "is_text (Some (JStr s)) = True"
| "is_text v = False"

fun int_between :: "int \<Rightarrow> int \<Rightarrow> json option \<Rightarrow> bool" where
  "int_between lo hi (Some (JInt n)) = (lo \<le> n \<and> n \<le> hi)"
| "int_between lo hi v = False"

text \<open>
  A structurally valid Assessment in the words of the specification: an integer score
  from 0 to 100, an integer number of stars from 1 to 5, and text in \<open>message\<close>,
  \<open>what_you_did_well\<close> and the three parts of \<open>improvement_tip\<close>.
\<close>

definition valid_assessment :: "json \<Rightarrow> bool" where
  "valid_assessment a =
     (int_between 0 100 (dict_item a ''score'') \<and>
      int_between 1 5 (dict_item a ''stars'') \<and>
      is_text (dict_item a ''message'') \<and>
      is_text (dict_item a ''what_you_did_well'') \<and>
      (case dict_item a ''improvement_tip'' of
         None \<Rightarrow> False
       | Some tip \<Rightarrow>
           is_text (dict_item tip ''what_they_said'') \<and>
           is_text (dict_item tip ''better_way'') \<and>
           is_text (dict_item tip ''explanation'')))"

text \<open>The operations that change a conversation, and a sequence of them.\<close>

datatype operation =
    AddMessage string string
  | GetResponse llm_reply llm_reply string

fun apply_op :: "pylib \<Rightarrow> operation \<Rightarrow> session \<Rightarrow> session" where
  "apply_op L (AddMessage r c) s = add_message r c s"
| "apply_op L (GetResponse chat assess user_message) s =
     snd (get_response L chat assess user_message s)"

fun run_ops :: "pylib \<Rightarrow> operation list \<Rightarrow> session \<Rightarrow> session" where
  "run_ops L [] s = s"
| "run_ops L (op # ops) s = run_ops L ops (apply_op L op s)"

text \<open>
  Successive calls of \<open>get_response\<close> on one conversation, each with the outcomes of
  its collaborator calls and its user message; the results in order.
\<close>

fun submit_all ::
  "pylib \<Rightarrow> (llm_reply \<times> llm_reply \<times> string) list \<Rightarrow> session \<Rightarrow>
     (py_error + turn_result) list" where
  "submit_all L [] s = []"
| "submit_all L ((chat, assess, user_message) # rest) s =
     fst (get_response L chat assess user_message s) #
     submit_all L rest (snd (get_response L chat assess user_message s))"

fun returns_final :: "py_error + turn_result \<Rightarrow> bool" where
  "returns_final (Inr (Final a)) = True"
| "returns_final r = False"

fun returns_message :: "py_error + turn_result \<Rightarrow> bool" where
  "returns_message (Inr (Message m)) = True"
| "returns_message r = False"

fun chat_returns :: "llm_reply \<times> llm_reply \<times> string \<Rightarrow> bool" where
  "chat_returns (Returns text, assess, user_message) = True"
| "chat_returns (Raises e, assess, user_message) = False"

definition user_turns :: "session \<Rightarrow> turn list" where
  "user_turns s = filter (\<lambda>t. role t = ''user'') (history s)"

text \<open>The supported identifiers, in the words of the specification.\<close>

definition supported_languages :: "string list" where
  "supported_languages =
     [''english'', ''hindi'', ''kannada'', ''tamil'', ''telugu'', ''malayalam'', ''bengali'']"

section \<open>The turn counter and the history\<close>

lemma add_message_history: "history (add_message r c s) = history s @ [\<lparr>role = r, content = c\<rparr>]"
  by (simp add: add_message_def Let_def)

lemma add_message_turn_count:
  "turn_count (add_message r c s) = (if r = ''user'' then turn_count s + 1 else turn_count s)"
  by (simp add: add_message_def Let_def)

lemma add_message_max_turns: "max_turns (add_message r c s) = max_turns s"
  by (simp add: add_message_def Let_def)

lemma get_response_turn_count:
  "turn_count (snd (get_response L chat assess m s)) = turn_count s + 1"
  by (cases chat) (simp_all add: get_response_def Let_def add_message_turn_count)

lemma get_response_max_turns:
  "max_turns (snd (get_response L chat assess m s)) = max_turns s"
  by (cases chat) (simp_all add: get_response_def Let_def add_message_max_turns)

lemma get_response_history:
  "history (snd (get_response L chat assess m s)) =
     history s @ \<lparr>role = ''user'', content = m\<rparr> #
       (case chat of Raises e \<Rightarrow> [] | Returns text \<Rightarrow> [\<lparr>role = ''assistant'', content = str_strip L text\<rparr>])"
  by (cases chat) (simp_all add: get_response_def Let_def add_message_history)

lemma send_message_registry:
  "snd (send_message L chat assess audio sid m conversations) =
     (case conversations sid of
        None \<Rightarrow> conversations
      | Some conv \<Rightarrow> conversations(sid \<mapsto> snd (get_response L chat assess m conv)))"
  by (simp add: send_message_def Let_def split: option.splits prod.splits sum.splits)

text \<open>
  C2. Every call of \<open>get_response\<close> leaves \<open>turn_count\<close> exactly one greater than
  it found it, whatever the collaborator does: the user turn added first counts, the
  assistant turn does not. No operation on a conversation, and no sequence of them, makes
  \<open>turn_count\<close> smaller. Through \<open>send_message\<close>, a request for a registered session
  leaves that session with \<open>turn_count\<close> one greater, and a request for an unknown
  session changes nothing.
\<close>

theorem turn_count_plus_one:
  "turn_count (snd (get_response L chat assess m s)) = turn_count s + 1 \<and>
   turn_count (add_message ''user'' c s) = turn_count s + 1 \<and>
   turn_count (add_message ''assistant'' c s) = turn_count s \<and>
   turn_count s \<le> turn_count (apply_op L op s) \<and>
   turn_count s \<le> turn_count (run_ops L ops s) \<and>
   (case conversations sid of
      None \<Rightarrow> snd (send_message L chat assess audio sid m conversations) = conversations
    | Some conv \<Rightarrow>
        (case snd (send_message L chat assess audio sid m conversations) sid of
           None \<Rightarrow> False
         | Some conv1 \<Rightarrow> turn_count conv1 = turn_count conv + 1))"
proof -
  have step: "turn_count t \<le> turn_count (apply_op L o1 t)" for o1 t
    by (cases o1) (simp_all add: add_message_turn_count get_response_turn_count)
  have run: "turn_count t \<le> turn_count (run_ops L os t)" for os t
  proof (induction os arbitrary: t)
    case Nil
    show ?case by simp
  next
    case (Cons o1 os)
    have "turn_count t \<le> turn_count (apply_op L o1 t)" by (rule step)
    also have "\<dots> \<le> turn_count (run_ops L os (apply_op L o1 t))" by (rule Cons.IH)
    finally show ?case by simp
  qed
  have send: "(case conversations sid of
      None \<Rightarrow> snd (send_message L chat assess audio sid m conversations) = conversations
    | Some conv \<Rightarrow>
        (case snd (send_message L chat assess audio sid m conversations) sid of
           None \<Rightarrow> False
         | Some conv1 \<Rightarrow> turn_count conv1 = turn_count conv + 1))"
    by (simp add: send_message_registry get_response_turn_count split: option.splits)
  show ?thesis
    using step run send
    by (simp add: get_response_turn_count add_message_turn_count)
qed

lemma user_turns_add_message:
  "user_turns (add_message r c s) =
     user_turns s @ (if r = ''user'' then [\<lparr>role = r, content = c\<rparr>] else [])"
  by (simp add: user_turns_def add_message_history)

lemma apply_op_history: "prefix (history s) (history (apply_op L op s))"
  by (cases op) (simp_all add: add_message_history get_response_history)

lemma run_ops_history: "prefix (history s) (history (run_ops L ops s))"
proof (induction ops arbitrary: s)
  case Nil
  show ?case by simp
next
  case (Cons op ops)
  have "prefix (history s) (history (apply_op L op s))" by (rule apply_op_history)
  moreover have "prefix (history (apply_op L op s)) (history (run_ops L ops (apply_op L op s)))"
    by (rule Cons.IH)
  ultimately show ?case by (auto intro: prefix_order.trans)
qed

lemma apply_op_balance:
  "turn_count (apply_op L op s) - int (length (user_turns (apply_op L op s))) =
   turn_count s - int (length (user_turns s))"
proof (cases op)
  case (AddMessage r c)
  then show ?thesis
    by (simp add: add_message_turn_count user_turns_add_message)
next
  case (GetResponse chat assess m)
  then show ?thesis
    by (cases chat)
       (simp_all add: get_response_turn_count user_turns_def get_response_history)
qed

lemma run_ops_balance:
  "turn_count (run_ops L ops s) - int (length (user_turns (run_ops L ops s))) =
   turn_count s - int (length (user_turns s))"
  by (induction ops arbitrary: s) (simp_all add: apply_op_balance)

text \<open>
  C10. After any sequence of operations on a conversation made by the constructor,
  calls of \<open>get_response\<close> whose collaborator call raises included, \<open>turn_count\<close>
  is the number of entries of \<open>history\<close> with the role \<open>user\<close>. The history only
  grows at its end: the history before an operation, or before a sequence of them, is a
  prefix of the history after it, and a call whose collaborator call raises adds the user
  turn and nothing else.
\<close>

theorem turn_count_counts_user_turns:
  "turn_count (run_ops L ops (ConversationManager L tp lc lang)) =
     int (length (user_turns (run_ops L ops (ConversationManager L tp lc lang)))) \<and>
   prefix (history s) (history (apply_op L op s)) \<and>
   prefix (history s) (history (run_ops L ops s)) \<and>
   history (snd (get_response L (Raises e) assess m s)) =
     history s @ [\<lparr>role = ''user'', content = m\<rparr>]"
proof -
  have "turn_count (ConversationManager L tp lc lang) -
          int (length (user_turns (ConversationManager L tp lc lang))) = 0"
    by (simp add: ConversationManager_def user_turns_def)
  then have "turn_count (run_ops L ops (ConversationManager L tp lc lang)) =
     int (length (user_turns (run_ops L ops (ConversationManager L tp lc lang))))"
    using run_ops_balance [of L ops "ConversationManager L tp lc lang"] by simp
  then show ?thesis
    by (simp add: apply_op_history run_ops_history get_response_history)
qed

text \<open>
  C7. When the collaborator call that produces the reply raises, \<open>get_response\<close>
  raises the same exception and nothing is undone: the conversation keeps the user turn
  added before the call, has no assistant turn for it, and its \<open>turn_count\<close> is one
  greater. \<open>send_message\<close> then answers with the error body and the registry holds the
  conversation so changed. This is the only way \<open>get_response\<close> raises: when the
  reply call returns, it returns a result, also when the assessment call raises.
\<close>

theorem failed_call_keeps_user_turn:
  "get_response L (Raises e) assess m s =
     (Inl e, s\<lparr>history := history s @ [\<lparr>role = ''user'', content = m\<rparr>],
               turn_count := turn_count s + 1\<rparr>) \<and>
   (conversations sid = Some s \<longrightarrow>
      send_message L (Raises e) assess audio sid m conversations =
        (ErrorResponse 200 e,
         conversations(sid \<mapsto> s\<lparr>history := history s @ [\<lparr>role = ''user'', content = m\<rparr>],
                                  turn_count := turn_count s + 1\<rparr>))) \<and>
   (\<exists>r. fst (get_response L (Returns text) assess m s) = Inr r)"
  by (simp add: get_response_def send_message_def add_message_def Let_def)

theorem failed_call_keeps_user_turn_witness:
  "send_message ascii_lib (Raises (CollaboratorError ''timeout'')) (Returns ''{}'') None ''s1'' ''hi''
      [''s1'' \<mapsto> ConversationManager ascii_lib ''t'' ''l'' ''hindi''] =
     (ErrorResponse 200 (CollaboratorError ''timeout''),
      [''s1'' \<mapsto> \<lparr>topic = ''t'', lesson_content = ''l'', language = ''hindi'',
                  history = [\<lparr>role = ''user'', content = ''hi''\<rparr>], turn_count = 1,
                  max_turns = 10\<rparr>])"
proof -
  have c: "ConversationManager ascii_lib ''t'' ''l'' ''hindi'' =
      \<lparr>topic = ''t'', lesson_content = ''l'', language = ''hindi'',
                  history = [], turn_count = 0, max_turns = 10\<rparr>"
    by (simp add: ConversationManager_def ascii_lib_def lower_ascii_def)
  show ?thesis
    using failed_call_keeps_user_turn
      [of ascii_lib "CollaboratorError ''timeout''" "Returns ''{}''" "''hi''"
          "ConversationManager ascii_lib ''t'' ''l'' ''hindi''"
          "[''s1'' \<mapsto> ConversationManager ascii_lib ''t'' ''l'' ''hindi'']" "''s1''" None "''ok''"]
    by (simp add: c)
qed

text \<open>
  C8. \<open>end_session\<close> always answers \<open>{'status': 'success'}\<close>. Afterwards the session
  identifier is not in the registry, so that \<open>send_message\<close> for it answers
  \<open>Session not found\<close>, and every other entry is as before. When the identifier was not
  registered the registry is unchanged, and ending a session a second time gives the same
  answer and the same registry as ending it once.
\<close>

theorem end_session_removes:
  "fst (end_session sid conversations) = EndSuccess \<and>
   snd (end_session sid conversations) sid = None \<and>
   (k \<noteq> sid \<longrightarrow> snd (end_session sid conversations) k = conversations k) \<and>
   fst (send_message L chat assess audio sid m (snd (end_session sid conversations))) =
     SessionNotFound \<and>
   (conversations sid = None \<longrightarrow> end_session sid conversations = (EndSuccess, conversations)) \<and>
   end_session sid (snd (end_session sid conversations)) = end_session sid conversations"
  by (auto simp: end_session_def send_message_def domIff)

theorem end_session_removes_witness:
  "fst (end_session ''s1'' [''s1'' \<mapsto> ConversationManager ascii_lib ''t'' ''l'' ''hindi'']) = EndSuccess \<and>
   snd (end_session ''s1'' [''s1'' \<mapsto> ConversationManager ascii_lib ''t'' ''l'' ''hindi'']) ''s1'' = None \<and>
   snd (end_session ''s1'' [''s1'' \<mapsto> ConversationManager ascii_lib ''t'' ''l'' ''hindi'',
                            ''s2'' \<mapsto> ConversationManager ascii_lib ''u'' ''l'' ''tamil'']) ''s2'' =
     Some (ConversationManager ascii_lib ''u'' ''l'' ''tamil'') \<and>
   end_session ''s1'' Map.empty = (EndSuccess, Map.empty)"
  using end_session_removes
      [of "''s1''" "[''s1'' \<mapsto> ConversationManager ascii_lib ''t'' ''l'' ''hindi'']"
          "''s2''" ascii_lib "Returns ''''" "Returns ''''" None "''''"]
    end_session_removes
      [of "''s1''" "[''s1'' \<mapsto> ConversationManager ascii_lib ''t'' ''l'' ''hindi'',
                            ''s2'' \<mapsto> ConversationManager ascii_lib ''u'' ''l'' ''tamil'']"
          "''s2''" ascii_lib "Returns ''''" "Returns ''''" None "''''"]
    end_session_removes
      [of "''s1''" Map.empty "''s2''" ascii_lib "Returns ''''" "Returns ''''" None "''''"]
  by simp

section \<open>Final turns\<close>

lemma get_response_returns:
  "fst (get_response L (Returns text) assess m s) =
     (if turn_count s + 1 < max_turns s then Inr (Message (str_strip L text))
      else Inr (Final (final_assessment L assess)))"
  by (simp add: get_response_def Let_def add_message_turn_count add_message_max_turns)

lemma submit_all_final:
  "list_all chat_returns inputs \<Longrightarrow>
   map returns_final (submit_all L inputs s) =
     map (\<lambda>i. max_turns s \<le> turn_count s + 1 + int i) [0..<length inputs]"
proof (induction inputs arbitrary: s)
  case Nil
  show ?case by simp
next
  case (Cons x xs)
  obtain chat assess m where x: "x = (chat, assess, m)" by (cases x)
  from Cons.prems x obtain reply where chat: "chat = Returns reply"
    by (cases chat) simp_all
  let ?s1 = "snd (get_response L chat assess m s)"
  have rest: "list_all chat_returns xs" using Cons.prems by simp
  have ih: "map returns_final (submit_all L xs ?s1) =
      map (\<lambda>i. max_turns s \<le> turn_count s + 1 + int (Suc i)) [0..<length xs]"
    using Cons.IH [OF rest, of ?s1]
    by (simp add: get_response_turn_count get_response_max_turns add.commute add.left_commute)
  have hd: "returns_final (fst (get_response L chat assess m s)) =
      (max_turns s \<le> turn_count s + 1)"
    by (simp add: chat get_response_returns)
  show ?case
    using ih hd by (simp add: x map_upt_Suc del: upt_Suc)
qed

lemma submit_all_message:
  "list_all chat_returns inputs \<Longrightarrow>
   map returns_message (submit_all L inputs s) =
     map (\<lambda>i. turn_count s + 1 + int i < max_turns s) [0..<length inputs]"
proof (induction inputs arbitrary: s)
  case Nil
  show ?case by simp
next
  case (Cons x xs)
  obtain chat assess m where x: "x = (chat, assess, m)" by (cases x)
  from Cons.prems x obtain reply where chat: "chat = Returns reply"
    by (cases chat) simp_all
  let ?s1 = "snd (get_response L chat assess m s)"
  have rest: "list_all chat_returns xs" using Cons.prems by simp
  have ih: "map returns_message (submit_all L xs ?s1) =
      map (\<lambda>i. turn_count s + 1 + int (Suc i) < max_turns s) [0..<length xs]"
    using Cons.IH [OF rest, of ?s1]
    by (simp add: get_response_turn_count get_response_max_turns add.commute add.left_commute)
  have hd: "returns_message (fst (get_response L chat assess m s)) =
      (turn_count s + 1 < max_turns s)"
    by (simp add: chat get_response_returns)
  show ?case
    using ih hd by (simp add: x map_upt_Suc del: upt_Suc)
qed

text \<open>
  C1, as the code has it. When the reply call returns, \<open>get_response\<close> returns
  \<open>{"is_final": False, "message": reply}\<close> if the incremented \<open>turn_count\<close> is below
  \<open>max_turns\<close>, and \<open>{"is_final": True, "assessment": a}\<close> otherwise; \<open>max_turns\<close>
  is 10 for every conversation made by the constructor, whatever happened to it since.
  So on a new conversation whose reply calls all return, the first nine calls return a
  message and no assessment, and the tenth call and every later call return an
  assessment: the test is \<open>turn_count >= max_turns\<close>, and nothing closes the
  conversation after the tenth turn.
\<close>

theorem final_from_tenth_turn_on:
  "fst (get_response L (Returns text) assess m s) =
     (if turn_count s + 1 < max_turns s then Inr (Message (str_strip L text))
      else Inr (Final (final_assessment L assess))) \<and>
   max_turns (run_ops L ops (ConversationManager L tp lc lang)) = 10 \<and>
   (list_all chat_returns inputs \<longrightarrow>
      map returns_message (submit_all L inputs (ConversationManager L tp lc lang)) =
        map (\<lambda>i. i < 9) [0..<length inputs] \<and>
      map returns_final (submit_all L inputs (ConversationManager L tp lc lang)) =
        map (\<lambda>i. 9 \<le> i) [0..<length inputs])"
proof -
  have mt: "max_turns (run_ops L os t) = max_turns t" for os t
  proof (induction os arbitrary: t)
    case Nil
    show ?case by simp
  next
    case (Cons o1 os)
    have "max_turns (apply_op L o1 t) = max_turns t"
      by (cases o1) (simp_all add: add_message_max_turns get_response_max_turns)
    with Cons.IH [of "apply_op L o1 t"] show ?case by simp
  qed
  have c: "max_turns (ConversationManager L tp lc lang) = 10"
          "turn_count (ConversationManager L tp lc lang) = 0"
    by (simp_all add: ConversationManager_def)
  have a: "(\<lambda>i. (1::int) + int i < 10) = (\<lambda>i. i < 9)"
          "(\<lambda>i. (10::int) \<le> 1 + int i) = (\<lambda>i. 9 \<le> i)"
    by (auto simp: fun_eq_iff)
  show ?thesis
    using submit_all_final [of inputs L "ConversationManager L tp lc lang"]
      submit_all_message [of inputs L "ConversationManager L tp lc lang"]
    by (simp add: get_response_returns mt c a)
qed

theorem final_from_tenth_turn_on_witness:
  "list_all chat_returns (replicate 12 (Returns ''ok'', Raises TypeError, ''hi'')) \<and>
   map returns_final (submit_all ascii_lib (replicate 12 (Returns ''ok'', Raises TypeError, ''hi''))
        (ConversationManager ascii_lib ''t'' ''l'' ''english'')) =
     [False, False, False, False, False, False, False, False, False, True, True, True]"
proof -
  have h: "list_all chat_returns (replicate 12 (Returns ''ok'', Raises TypeError, ''hi''))"
    by code_simp
  have u: "map (\<lambda>i. 9 \<le> i) [0..<length (replicate 12 (Returns ''ok'', Raises TypeError, ''hi''))] =
     [False, False, False, False, False, False, False, False, False, True, True, True]"
    by code_simp
  show ?thesis
    using h u final_from_tenth_turn_on
      [of ascii_lib "''x''" "Raises TypeError" "''hi''" "ConversationManager ascii_lib ''t'' ''l'' ''english''"
          "[]" "''t''" "''l''" "''english''" "replicate 12 (Returns ''ok'', Raises TypeError, ''hi'')"]
    by simp
qed

text \<open>
  Against C1 as stated: eleven user messages on a new conversation produce two
  assessments, on the tenth and again on the eleventh call.
\<close>

theorem second_assessment_counterexample:
  "submit_all ascii_lib (replicate 11 (Returns ''ok'', Returns ''Well done.'', ''hi''))
        (ConversationManager ascii_lib ''t'' ''l'' ''english'') =
     replicate 9 (Inr (Message ''ok'')) @
     [Inr (Final default_assessment), Inr (Final default_assessment)]"
  by code_simp

section \<open>Starting a session\<close>

lemma start_session_registry:
  "snd (start_session L chat assess audio body conversations) =
     conversations(body_session_id body \<mapsto>
       snd (get_response L chat assess greeting
         (ConversationManager L
            (data_get (body_topic body) (''Ordering at a Caf'' @ [CHR 0xC3, CHR 0xA9]))
            (data_get (body_lesson_content body)
               (''Basic caf'' @ [CHR 0xC3, CHR 0xA9] @ '' ordering phrases and polite requests''))
            (data_get (body_language body) ''english''))))"
  by (simp add: start_session_def Let_def split: prod.splits sum.splits turn_result.splits)

lemma start_session_response:
  "fst (start_session L chat assess audio body conversations) =
     fst (start_session L chat assess audio body conversations2)"
  by (simp add: start_session_def Let_def split: prod.splits sum.splits turn_result.splits)

text \<open>
  C6, as the code has it. \<open>start_session\<close> does not look the session identifier up:
  whether it is registered or not, a new conversation with \<open>turn_count\<close> 0, an empty
  history and \<open>max_turns\<close> 10 is made, the greeting is submitted to it, and the result
  is stored under the identifier, replacing what was there. The answer is the same for
  every registry: the success body when the reply call returns, the error body with the
  collaborator's exception when it raises.
\<close>

theorem start_session_overwrites:
  "(\<exists>c. turn_count c = 0 \<and> history c = [] \<and> max_turns c = 10 \<and>
        language c = str_lower L (data_get (body_language body) ''english'') \<and>
        snd (start_session L chat assess audio body conversations) =
          conversations(body_session_id body \<mapsto> snd (get_response L chat assess greeting c))) \<and>
   fst (start_session L chat assess audio body conversations) =
     fst (start_session L chat assess audio body Map.empty) \<and>
   fst (start_session L (Returns reply) assess audio body conversations) =
     StartSuccess (body_session_id body) (str_strip L reply) audio \<and>
   fst (start_session L (Raises e) assess audio body conversations) = ErrorResponse 500 e"
proof -
  let ?c = "ConversationManager L
            (data_get (body_topic body) (''Ordering at a Caf'' @ [CHR 0xC3, CHR 0xA9]))
            (data_get (body_lesson_content body)
               (''Basic caf'' @ [CHR 0xC3, CHR 0xA9] @ '' ordering phrases and polite requests''))
            (data_get (body_language body) ''english'')"
  have 1: "turn_count ?c = 0 \<and> history ?c = [] \<and> max_turns ?c = 10 \<and>
        language ?c = str_lower L (data_get (body_language body) ''english'') \<and>
        snd (start_session L chat assess audio body conversations) =
          conversations(body_session_id body \<mapsto> snd (get_response L chat assess greeting ?c))"
    by (simp add: start_session_registry) (simp add: ConversationManager_def)
  have 2: "fst (start_session L (Returns reply) assess audio body conversations) =
     StartSuccess (body_session_id body) (str_strip L reply) audio"
    by (simp add: start_session_def Let_def get_response_def add_message_def
          ConversationManager_def)
  have 3: "fst (start_session L (Raises e) assess audio body conversations) = ErrorResponse 500 e"
    by (simp add: start_session_def Let_def get_response_def)
  from 1 have "\<exists>c. turn_count c = 0 \<and> history c = [] \<and> max_turns c = 10 \<and>
        language c = str_lower L (data_get (body_language body) ''english'') \<and>
        snd (start_session L chat assess audio body conversations) =
          conversations(body_session_id body \<mapsto> snd (get_response L chat assess greeting c))"
    by blast
  then show ?thesis
    using 2 3 start_session_response [of L chat assess audio body conversations Map.empty]
    by simp
qed

text \<open>
  Against C6 as stated: starting a session under an identifier that is registered
  succeeds and replaces the registered conversation.
\<close>

theorem duplicate_session_counterexample:
  "fst (start_session ascii_lib (Returns ''Namaste!'') (Returns ''{}'') None
         \<lparr>body_session_id = ''s1'', body_topic = Some ''Greetings'',
          body_lesson_content = Some ''Basic greetings'', body_language = Some ''Hindi''\<rparr>
         [''s1'' \<mapsto> \<lparr>topic = ''Food'', lesson_content = ''Ordering'', language = ''tamil'',
                     history = [\<lparr>role = ''user'', content = ''hi''\<rparr>,
                                \<lparr>role = ''assistant'', content = ''vanakkam''\<rparr>],
                     turn_count = 1, max_turns = 10\<rparr>]) =
     StartSuccess ''s1'' ''Namaste!'' None \<and>
   snd (start_session ascii_lib (Returns ''Namaste!'') (Returns ''{}'') None
         \<lparr>body_session_id = ''s1'', body_topic = Some ''Greetings'',
          body_lesson_content = Some ''Basic greetings'', body_language = Some ''Hindi''\<rparr>
         [''s1'' \<mapsto> \<lparr>topic = ''Food'', lesson_content = ''Ordering'', language = ''tamil'',
                     history = [\<lparr>role = ''user'', content = ''hi''\<rparr>,
                                \<lparr>role = ''assistant'', content = ''vanakkam''\<rparr>],
                     turn_count = 1, max_turns = 10\<rparr>]) ''s1'' =
     Some \<lparr>topic = ''Greetings'', lesson_content = ''Basic greetings'', language = ''hindi'',
           history = [\<lparr>role = ''user'', content = greeting\<rparr>,
                      \<lparr>role = ''assistant'', content = ''Namaste!''\<rparr>],
           turn_count = 1, max_turns = 10\<rparr>"
  by code_simp

section \<open>The language table\<close>

lemma get_config_table:
  "map get_config supported_languages =
     map Inr [english_config, hindi_config, kannada_config, tamil_config, telugu_config,
              malayalam_config, bengali_config]"
  by (simp add: supported_languages_def get_config_def language_configs_def dict_get_def)

lemma english_entry: "map_of language_configs ''english'' = Some english_config"
  by (simp add: language_configs_def)

lemma get_config_other:
  "k \<notin> set supported_languages \<Longrightarrow> get_config k = Inr english_config"
proof -
  assume "k \<notin> set supported_languages"
  then have "map_of language_configs k = None"
    by (simp add: supported_languages_def language_configs_def)
  then show ?thesis
    by (simp add: get_config_def dict_get_def english_entry)
qed

lemma get_config_total: "\<exists>c. get_config k = Inr c"
  by (simp add: get_config_def english_entry)

lemma configs_distinct:
  "distinct (map instruction [english_config, hindi_config, kannada_config, tamil_config,
      telugu_config, malayalam_config, bengali_config])"
  by (simp add: english_config_def hindi_config_def kannada_config_def tamil_config_def
        telugu_config_def malayalam_config_def bengali_config_def)

lemma configs_instruction:
  "list_all (\<lambda>c. instruction c \<noteq> []) [english_config, hindi_config, kannada_config,
      tamil_config, telugu_config, malayalam_config, bengali_config]"
  by (simp add: english_config_def hindi_config_def kannada_config_def tamil_config_def
        telugu_config_def malayalam_config_def bengali_config_def)

text \<open>
  C9. The constructor stores the lower-case form of the identifier as the language of the
  conversation, and \<open>get_system_prompt\<close> looks that language up. The lookup never
  raises; two identifiers with the same lower-case form give conversations with the same
  configuration; an identifier whose lower-case form is none of the seven supported ones
  gives the English configuration. The table has exactly the seven supported keys; they
  yield seven pairwise different configurations, each with a non-empty instruction.
\<close>

theorem conversation_config_lookup:
  "language (ConversationManager L tp lc ident) = str_lower L ident \<and>
   (\<exists>c. get_config (language (ConversationManager L tp lc ident)) = Inr c) \<and>
   (str_lower L ident \<notin> set supported_languages \<longrightarrow>
      get_config (language (ConversationManager L tp lc ident)) = Inr english_config) \<and>
   (str_lower L a = str_lower L b \<longrightarrow>
      get_config (language (ConversationManager L tp lc a)) =
      get_config (language (ConversationManager L tp lc b))) \<and>
   map fst language_configs = supported_languages \<and>
   ((\<forall>k \<in> set supported_languages. str_lower L k = k) \<longrightarrow>
      map (\<lambda>k. get_config (language (ConversationManager L tp lc k))) supported_languages =
        map Inr [english_config, hindi_config, kannada_config, tamil_config, telugu_config,
                 malayalam_config, bengali_config]) \<and>
   distinct [english_config, hindi_config, kannada_config, tamil_config, telugu_config,
             malayalam_config, bengali_config] \<and>
   list_all (\<lambda>c. instruction c \<noteq> []) [english_config, hindi_config, kannada_config,
      tamil_config, telugu_config, malayalam_config, bengali_config]"
proof -
  have l: "language (ConversationManager L tp lc x) = str_lower L x" for x
    by (simp add: ConversationManager_def)
  have d: "distinct [english_config, hindi_config, kannada_config, tamil_config, telugu_config,
             malayalam_config, bengali_config]"
    using configs_distinct by (rule distinct_map [THEN iffD1, THEN conjunct1])
  have m: "(\<forall>k \<in> set supported_languages. str_lower L k = k) \<longrightarrow>
      map (\<lambda>k. get_config (str_lower L k)) supported_languages =
      map get_config supported_languages"
    by simp
  have f: "map fst language_configs = supported_languages"
    by (simp add: language_configs_def supported_languages_def)
  show ?thesis
    using d m f get_config_total [of "str_lower L ident"]
      get_config_other [of "str_lower L ident"] configs_instruction
    by (simp add: l get_config_table)
qed

theorem conversation_config_lookup_witness:
  "lower_ascii ''klingon'' \<notin> set supported_languages \<and>
   get_config (language (ConversationManager ascii_lib ''Food'' ''Ordering'' ''klingon'')) =
     Inr english_config \<and>
   lower_ascii ''HiNdI'' = lower_ascii ''hindi'' \<and>
   get_config (language (ConversationManager ascii_lib ''Food'' ''Ordering'' ''HiNdI'')) =
     Inr hindi_config \<and>
   map lower_ascii supported_languages = supported_languages \<and>
   map (\<lambda>k. get_config (language (ConversationManager ascii_lib ''Food'' ''Ordering'' k)))
       supported_languages =
     map Inr [english_config, hindi_config, kannada_config, tamil_config, telugu_config,
              malayalam_config, bengali_config]"
proof -
  have 1: "str_lower ascii_lib ''klingon'' \<notin> set supported_languages"
    by code_simp
  have 2: "str_lower ascii_lib ''HiNdI'' = str_lower ascii_lib ''hindi''"
    by code_simp
  have 3: "\<forall>k \<in> set supported_languages. str_lower ascii_lib k = k"
    by code_simp
  have 4: "str_lower ascii_lib = lower_ascii"
    by (simp add: ascii_lib_def)
  have 5: "map lower_ascii supported_languages = supported_languages"
    by code_simp
  have 6: "map (\<lambda>k. get_config (language (ConversationManager ascii_lib ''Food'' ''Ordering'' k)))
       supported_languages =
     map Inr [english_config, hindi_config, kannada_config, tamil_config, telugu_config,
              malayalam_config, bengali_config] \<longrightarrow>
     get_config (language (ConversationManager ascii_lib ''Food'' ''Ordering'' ''hindi'')) =
       Inr hindi_config"
    by (simp add: supported_languages_def)
  note T = conversation_config_lookup
      [of ascii_lib "''Food''" "''Ordering''" "''klingon''" "''HiNdI''" "''hindi''"]
  have 7: "get_config (language (ConversationManager ascii_lib ''Food'' ''Ordering'' ''HiNdI'')) =
      get_config (language (ConversationManager ascii_lib ''Food'' ''Ordering'' ''hindi''))"
    using 2 T by blast
  have 8: "get_config (language (ConversationManager ascii_lib ''Food'' ''Ordering'' ''klingon'')) =
      Inr english_config"
    using 1 T by blast
  have 9: "map (\<lambda>k. get_config (language (ConversationManager ascii_lib ''Food'' ''Ordering'' k)))
       supported_languages =
     map Inr [english_config, hindi_config, kannada_config, tamil_config, telugu_config,
              malayalam_config, bengali_config]"
    using 3 T by blast
  have 10: "get_config (language (ConversationManager ascii_lib ''Food'' ''Ordering'' ''HiNdI'')) =
      Inr hindi_config"
    using 6 7 9 by simp
  have 11: "lower_ascii ''klingon'' \<notin> set supported_languages"
    using 1 unfolding 4 .
  have 12: "lower_ascii ''HiNdI'' = lower_ascii ''hindi''"
    using 2 unfolding 4 .
  from 11 8 12 10 5 9 show ?thesis by blast
qed

section \<open>The assessment step\<close>

lemma index_first:
  "index s c = (if c \<in> set s then Inr (length (takeWhile (\<lambda>x. x \<noteq> c) s)) else Inl ValueError)"
  by (induction s) auto

lemma takeWhile_stops: "c \<in> set s \<Longrightarrow> length (takeWhile (\<lambda>x. x \<noteq> c) s) < length s"
  by (induction s) auto

lemma takeWhile_past:
  "c \<notin> set ys \<Longrightarrow>
   takeWhile (\<lambda>x. x \<noteq> c) (ys @ zs) = ys @ takeWhile (\<lambda>x. x \<noteq> c) zs"
  by (induction ys) auto

lemma rindex_last:
  "rindex s c =
     (if c \<in> set s then Inr (length s - 1 - length (takeWhile (\<lambda>x. x \<noteq> c) (rev s)))
      else Inl ValueError)"
proof (induction s)
  case Nil
  show ?case by simp
next
  case (Cons x xs)
  show ?case
  proof (cases "c \<in> set xs")
    case True
    then have tw: "takeWhile (\<lambda>x. x \<noteq> c) (rev xs @ [x]) = takeWhile (\<lambda>x. x \<noteq> c) (rev xs)"
      by simp
    have "length (takeWhile (\<lambda>x. x \<noteq> c) (rev xs)) < length xs"
      using True takeWhile_stops [of c "rev xs"] by simp
    then show ?thesis using True Cons.IH tw by (simp add: Suc_diff_le less_imp_le)
  next
    case False
    then have tw: "takeWhile (\<lambda>y. y \<noteq> c) (rev xs @ [x]) =
        rev xs @ takeWhile (\<lambda>y. y \<noteq> c) [x]"
      by (simp add: takeWhile_past)
    show ?thesis
    proof (cases "x = c")
      case True
      with False tw have "length (takeWhile (\<lambda>y. y \<noteq> c) (rev (x # xs))) = length xs"
        by simp
      with True False Cons.IH show ?thesis by simp
    next
      case neq: False
      with False Cons.IH show ?thesis by simp
    qed
  qed
qed

lemma parse_text_candidate:
  "parse_text L raw =
     (let t = clean_text L raw in
      if CHR ''{'' \<in> set t \<and> CHR ''}'' \<in> set t then
        (case json_loads L (brace_candidate t) of
           Inl e \<Rightarrow> Inl e
         | Inr a \<Rightarrow>
             (case all_in required_fields a of
                Inl e \<Rightarrow> Inl e
              | Inr b \<Rightarrow> Inr (if b then a else default_assessment)))
      else Inr default_assessment)"
proof -
  let ?t = "clean_text L raw"
  have "length ?t - 1 - length (takeWhile (\<lambda>x. x \<noteq> CHR ''}'') (rev ?t)) + 1 =
        length ?t - length (takeWhile (\<lambda>x. x \<noteq> CHR ''}'') (rev ?t))"
    if "CHR ''}'' \<in> set ?t"
  proof -
    have "length (takeWhile (\<lambda>x. x \<noteq> CHR ''}'') (rev ?t)) < length ?t"
      using that takeWhile_stops [of "CHR ''}''" "rev ?t"] by simp
    then show ?thesis by simp
  qed
  then show ?thesis
    by (simp add: parse_text_def Let_def index_first rindex_last brace_candidate_def
          split: sum.splits)
qed

lemma all_in_default: "all_in required_fields default_assessment = Inr True"
  by (simp add: required_fields_def default_assessment_def)

lemma all_in_except: "all_in required_fields except_assessment = Inr True"
  by (simp add: required_fields_def except_assessment_def)

lemma final_assessment_Returns:
  "final_assessment L (Returns raw) =
     (let t = clean_text L raw in
      if CHR ''{'' \<in> set t \<and> CHR ''}'' \<in> set t then
        (case json_loads L (brace_candidate t) of
           Inl e \<Rightarrow> except_assessment
         | Inr a \<Rightarrow>
             (case all_in required_fields a of
                Inl e \<Rightarrow> except_assessment
              | Inr b \<Rightarrow> if b then a else default_assessment))
      else default_assessment)"
  by (simp add: final_assessment_def assessment_try_def parse_text_candidate Let_def
        split: sum.splits)

text \<open>
  C3, as the code has it. The assessment step always returns an assessment. There are
  two fixed fallbacks, not one. The first, with score 85 and 4 stars, is returned when
  the cleaned text lacks an opening or a closing brace, and when the decoded value lacks
  a required field. The second, with score 80 and 4 stars and other texts, is returned
  by the exception handler: when obtaining the text raises, when decoding the candidate
  raises, and when the membership test raises.
\<close>

theorem final_assessment_two_fallbacks:
  "final_assessment L (Raises e) = except_assessment \<and>
   final_assessment L (Returns raw) =
     (let t = clean_text L raw in
      if CHR ''{'' \<in> set t \<and> CHR ''}'' \<in> set t then
        (case json_loads L (brace_candidate t) of
           Inl e \<Rightarrow> except_assessment
         | Inr a \<Rightarrow>
             (case all_in required_fields a of
                Inl e \<Rightarrow> except_assessment
              | Inr b \<Rightarrow> if b then a else default_assessment))
      else default_assessment) \<and>
   dict_item default_assessment ''score'' = Some (JInt 85) \<and>
   dict_item default_assessment ''stars'' = Some (JInt 4) \<and>
   dict_item except_assessment ''score'' = Some (JInt 80) \<and>
   dict_item except_assessment ''stars'' = Some (JInt 4)"
proof -
  have "final_assessment L (Raises e) = except_assessment"
    by (simp add: final_assessment_def assessment_try_def)
  moreover have "dict_item default_assessment ''score'' = Some (JInt 85)"
    "dict_item default_assessment ''stars'' = Some (JInt 4)"
    by (simp_all add: dict_item_def default_assessment_def)
  moreover have "dict_item except_assessment ''score'' = Some (JInt 80)"
    "dict_item except_assessment ''stars'' = Some (JInt 4)"
    by (simp_all add: dict_item_def except_assessment_def)
  ultimately show ?thesis
    using final_assessment_Returns [of L raw] by simp
qed

text \<open>
  Against C3 as stated: a collaborator call that raises, and a candidate that is not
  JSON, give the assessment with score 80, while a decoded object without the required
  fields gives the one with score 85.
\<close>

theorem score_80_counterexample:
  \<open>final_assessment ascii_lib (Raises (CollaboratorError ''quota exceeded'')) = except_assessment \<and>
   final_assessment ascii_lib (Returns ''{"score": 90,}'') = except_assessment \<and>
   final_assessment ascii_lib (Returns ''{"score": 90}'') = default_assessment \<and>
   dict_item except_assessment ''score'' = Some (JInt 80) \<and>
   dict_item default_assessment ''score'' = Some (JInt 85)\<close>
  by code_simp

text \<open>
  C4, as the code has it. For every outcome of the assessment call, the returned
  assessment passes the test for the five required fields. It is one of the two fixed
  fallbacks, both structurally valid, or it is the value decoded from the candidate,
  returned as decoded: the code checks that the fields are present and nothing about
  their values.
\<close>

theorem assessment_has_required_fields:
  "all_in required_fields (final_assessment L r) = Inr True \<and>
   (final_assessment L r = default_assessment \<or>
    final_assessment L r = except_assessment \<or>
    (\<exists>raw. r = Returns raw \<and>
       json_loads L (brace_candidate (clean_text L raw)) = Inr (final_assessment L r))) \<and>
   valid_assessment default_assessment \<and>
   valid_assessment except_assessment"
proof -
  have v: "valid_assessment default_assessment" "valid_assessment except_assessment"
    by (simp_all add: valid_assessment_def dict_item_def default_assessment_def
          except_assessment_def)
  show ?thesis
  proof (cases r)
    case (Raises e)
    then show ?thesis
      using v by (simp add: final_assessment_def assessment_try_def all_in_except)
  next
    case (Returns raw)
    then show ?thesis
      using v
      by (auto simp: final_assessment_Returns Let_def all_in_default all_in_except
            split: sum.splits)
  qed
qed

text \<open>
  Against C4 as stated: an object with a score of 150, 9 stars, \<open>null\<close> as message and
  values of other wrong types is returned unchanged.
\<close>

theorem unchecked_values_counterexample:
  \<open>final_assessment ascii_lib
     (Returns ''{"score": 150, "stars": 9, "message": null, "what_you_did_well": 7, "improvement_tip": []}'') =
     JObj [(''score'', JInt 150), (''stars'', JInt 9), (''message'', JNull),
           (''what_you_did_well'', JInt 7), (''improvement_tip'', JArr [])] \<and>
   \<not> valid_assessment (final_assessment ascii_lib
     (Returns ''{"score": 150, "stars": 9, "message": null, "what_you_did_well": 7, "improvement_tip": []}''))\<close>
  by code_simp


lemma prefix_before_foreign:
  "c \<notin> set old \<Longrightarrow> prefix old (a @ c # r) = prefix old a"
  by (auto simp: prefix_append prefix_Cons)

lemma replace_split:
  "c \<notin> set old \<Longrightarrow>
   replace old new (a @ c # r) = replace old new a @ c # replace old new r"
proof (induction old new a rule: replace.induct)
  case (1 old new)
  then show ?case by (auto simp: prefix_Cons)
next
  case (2 old new x xs)
  show ?case
  proof (cases "old \<noteq> [] \<and> prefix old (x # xs)")
    case True
    then have len: "length old \<le> length (x # xs)"
      by (auto dest: prefix_length_le)
    have p: "prefix old ((x # xs) @ c # r)"
      unfolding prefix_before_foreign [OF "2.prems"] using True by blast
    have d: "drop (length old) ((x # xs) @ c # r) = drop (length old) (x # xs) @ c # r"
      unfolding drop_append using len by simp
    have "replace old new ((x # xs) @ c # r) =
        new @ replace old new (drop (length old) (x # xs) @ c # r)"
      using True p d by simp
    also have "\<dots> = new @ replace old new (drop (length old) (x # xs)) @ c # replace old new r"
      using "2.IH"(1) [OF True "2.prems"] by simp
    finally show ?thesis using True by simp
  next
    case False
    then have np: "\<not> (old \<noteq> [] \<and> prefix old ((x # xs) @ c # r))"
      unfolding prefix_before_foreign [OF "2.prems"] by blast
    have "replace old new ((x # xs) @ c # r) = x # replace old new (xs @ c # r)"
      using np by auto
    also have "\<dots> = x # replace old new xs @ c # replace old new r"
      using "2.IH"(2) [OF False "2.prems"] by simp
    finally show ?thesis using False by auto
  qed
qed

lemma replace_set: "set (replace old [] s) \<subseteq> set s"
proof (induction old "[] :: string" s rule: replace.induct)
  case (1 old)
  show ?case by simp
next
  case (2 old x xs)
  show ?case
  proof (cases "old \<noteq> [] \<and> prefix old (x # xs)")
    case True
    have "set (replace old [] (drop (length old) (x # xs))) \<subseteq> set (drop (length old) (x # xs))"
      using "2.hyps"(1) [OF True] .
    also have "\<dots> \<subseteq> set (x # xs)" by (rule set_drop_subset)
    finally show ?thesis using True by simp
  next
    case False
    then show ?thesis using "2.hyps"(2) [OF False] by auto
  qed
qed

lemma replace_absent: "\<not> contains old s \<Longrightarrow> replace old new s = s"
  by (induction s) auto

lemma contains_longer: "contains (old @ ext) s \<Longrightarrow> contains old s"
  by (induction s) (auto simp: prefix_def)

lemma strip_keeps_braces:
  assumes f: "strips_outside_braces f"
    and A: "CHR ''{'' \<notin> set A" and B: "CHR ''}'' \<notin> set B"
  shows "\<exists>A' B'. f (A @ CHR ''{'' # m @ CHR ''}'' # B) = A' @ CHR ''{'' # m @ CHR ''}'' # B' \<and>
           CHR ''{'' \<notin> set A' \<and> CHR ''}'' \<notin> set B'"
proof -
  let ?s = "A @ CHR ''{'' # m @ CHR ''}'' # B"
  from f obtain a b where s: "?s = a @ f ?s @ b"
    and a: "CHR ''{'' \<notin> set a" and b: "CHR ''}'' \<notin> set b"
    unfolding strips_outside_braces_def by blast
  from s have "a @ (f ?s @ b) = A @ (CHR ''{'' # m @ CHR ''}'' # B)" by simp
  then obtain us where
    "(a = A @ us \<and> us @ f ?s @ b = CHR ''{'' # m @ CHR ''}'' # B) \<or>
     (a @ us = A \<and> f ?s @ b = us @ CHR ''{'' # m @ CHR ''}'' # B)"
    unfolding append_eq_append_conv2 by blast
  then obtain us where us: "a @ us = A" "f ?s @ b = us @ CHR ''{'' # m @ CHR ''}'' # B"
  proof
    assume h: "a = A @ us \<and> us @ f ?s @ b = CHR ''{'' # m @ CHR ''}'' # B"
    show ?thesis
    proof (cases us)
      case Nil
      with h that [of "[]"] show ?thesis by simp
    next
      case (Cons u us')
      with h have "u = CHR ''{''" by simp
      with h Cons a show ?thesis by simp
    qed
  next
    assume "a @ us = A \<and> f ?s @ b = us @ CHR ''{'' # m @ CHR ''}'' # B"
    with that show ?thesis by blast
  qed
  from us(2) have "f ?s @ b = (us @ CHR ''{'' # m @ [CHR ''}'']) @ B" by simp
  then obtain vs where
    "(f ?s = (us @ CHR ''{'' # m @ [CHR ''}'']) @ vs \<and> vs @ b = B) \<or>
     (f ?s @ vs = us @ CHR ''{'' # m @ [CHR ''}''] \<and> b = vs @ B)"
    unfolding append_eq_append_conv2 by blast
  then obtain vs where vs: "f ?s = (us @ CHR ''{'' # m @ [CHR ''}'']) @ vs" "vs @ b = B"
  proof
    assume "f ?s = (us @ CHR ''{'' # m @ [CHR ''}'']) @ vs \<and> vs @ b = B"
    with that show ?thesis by blast
  next
    assume h: "f ?s @ vs = us @ CHR ''{'' # m @ [CHR ''}''] \<and> b = vs @ B"
    show ?thesis
    proof (cases "vs = []")
      case True
      with h that [of "[]"] show ?thesis by simp
    next
      case False
      from h have "last (f ?s @ vs) = last (us @ CHR ''{'' # m @ [CHR ''}''])" by simp
      with False have "last vs = CHR ''}''" by simp
      with False have "CHR ''}'' \<in> set vs" using last_in_set by metis
      with h b show ?thesis by simp
    qed
  qed
  have "CHR ''{'' \<notin> set us" using us(1) A by auto
  moreover have "CHR ''}'' \<notin> set vs" using vs(2) B by auto
  ultimately show ?thesis using vs(1) by auto
qed

lemma brace_candidate_between:
  assumes A: "CHR ''{'' \<notin> set A" and B: "CHR ''}'' \<notin> set B"
  shows "brace_candidate (A @ CHR ''{'' # m @ CHR ''}'' # B) = CHR ''{'' # m @ [CHR ''}'']"
proof -
  have 1: "takeWhile (\<lambda>c. c \<noteq> CHR ''{'') (A @ CHR ''{'' # m @ CHR ''}'' # B) = A"
    using A by (simp add: takeWhile_past)
  have nb: "CHR ''}'' \<notin> set (rev B)" using B by simp
  have "rev (A @ CHR ''{'' # m @ CHR ''}'' # B) = rev B @ (CHR ''}'' # rev m @ CHR ''{'' # rev A)"
    by simp
  then have 2: "takeWhile (\<lambda>c. c \<noteq> CHR ''}'') (rev (A @ CHR ''{'' # m @ CHR ''}'' # B)) = rev B"
    using takeWhile_past [OF nb, of "CHR ''}'' # rev m @ CHR ''{'' # rev A"] by simp
  show ?thesis
    unfolding brace_candidate_def 1 2 slice_def by simp
qed

lemma clean_text_keeps_object:
  assumes f: "strips_outside_braces (str_strip L)"
    and A: "CHR ''{'' \<notin> set A" and B: "CHR ''}'' \<notin> set B"
    and m: "\<not> contains ''```'' m"
  shows "\<exists>A' B'. clean_text L (A @ CHR ''{'' # m @ CHR ''}'' # B) =
             A' @ CHR ''{'' # m @ CHR ''}'' # B' \<and>
           CHR ''{'' \<notin> set A' \<and> CHR ''}'' \<notin> set B'"
proof -
  from strip_keeps_braces [OF f A B, of m] obtain A1 B1 where
    1: "str_strip L (A @ CHR ''{'' # m @ CHR ''}'' # B) = A1 @ CHR ''{'' # m @ CHR ''}'' # B1"
    and A1: "CHR ''{'' \<notin> set A1" and B1: "CHR ''}'' \<notin> set B1"
    by blast
  have mj: "\<not> contains ''```json'' m"
    using m contains_longer [of "''```''" "''json''" m] by auto
  have r: "replace old [] (X @ CHR ''{'' # m @ CHR ''}'' # Y) =
      replace old [] X @ CHR ''{'' # m @ CHR ''}'' # replace old [] Y"
    if "CHR ''{'' \<notin> set old" "CHR ''}'' \<notin> set old" "\<not> contains old m" for old X Y
    using that by (simp add: replace_split replace_absent)
  let ?A2 = "replace ''```'' [] (replace ''```json'' [] A1)"
  let ?B2 = "replace ''```'' [] (replace ''```json'' [] B1)"
  have 2: "replace ''```'' [] (replace ''```json'' [] (A1 @ CHR ''{'' # m @ CHR ''}'' # B1)) =
      ?A2 @ CHR ''{'' # m @ CHR ''}'' # ?B2"
    using m mj by (simp add: r)
  have A2: "CHR ''{'' \<notin> set ?A2"
    using A1 replace_set [of "''```''" "replace ''```json'' [] A1"]
      replace_set [of "''```json''" A1] by blast
  have B2: "CHR ''}'' \<notin> set ?B2"
    using B1 replace_set [of "''```''" "replace ''```json'' [] B1"]
      replace_set [of "''```json''" B1] by blast
  from strip_keeps_braces [OF f A2 B2, of m] show ?thesis
    unfolding clean_text_def 1 2 by simp
qed

text \<open>
  C5, as the code has it. Take a text made of anything without an opening brace, then an
  object text from its opening to its closing brace in which the fence marker does not
  occur, then anything without a closing brace; fence markers with or without the
  \<open>json\<close> tag and prose belong to the parts before and after. Then the candidate the
  parser decodes is exactly the object text, and when the decoded object has the
  required fields it is returned as decoded. Of \<open>str.strip\<close> only this is used: it cuts
  a prefix and a suffix, and neither holds a brace.
\<close>

theorem embedded_object_round_trip:
  assumes "strips_outside_braces (str_strip L)"
    and "CHR ''{'' \<notin> set before"
    and "CHR ''}'' \<notin> set after"
    and "\<not> contains ''```'' inner"
    and "json_loads L (CHR ''{'' # inner @ [CHR ''}'']) = Inr obj"
    and "all_in required_fields obj = Inr True"
  shows "final_assessment L (Returns (before @ CHR ''{'' # inner @ CHR ''}'' # after)) = obj"
proof -
  from clean_text_keeps_object [OF assms(1-4)] obtain A' B' where
    c: "clean_text L (before @ CHR ''{'' # inner @ CHR ''}'' # after) =
          A' @ CHR ''{'' # inner @ CHR ''}'' # B'"
    and A': "CHR ''{'' \<notin> set A'" and B': "CHR ''}'' \<notin> set B'"
    by blast
  have "brace_candidate (A' @ CHR ''{'' # inner @ CHR ''}'' # B') = CHR ''{'' # inner @ [CHR ''}'']"
    using A' B' by (rule brace_candidate_between)
  then show ?thesis
    using assms(5,6) by (simp add: final_assessment_Returns c)
qed

lemma space_set: "set (takeWhile space_ascii s) \<subseteq> {c. space_ascii c}"
  by (auto dest: set_takeWhileD)

lemma strip_ascii_outside_braces: "strips_outside_braces strip_ascii"
  unfolding strips_outside_braces_def
proof
  fix s
  let ?d = "dropWhile space_ascii s"
  let ?a = "takeWhile space_ascii s"
  let ?b = "rev (takeWhile space_ascii (rev ?d))"
  have nb: "\<not> space_ascii (CHR ''{'')" "\<not> space_ascii (CHR ''}'')"
    by (simp_all add: space_ascii_def)
  have "strip_ascii s @ ?b =
      rev (takeWhile space_ascii (rev ?d) @ dropWhile space_ascii (rev ?d))"
    unfolding strip_ascii_def by (simp only: rev_append)
  also have "\<dots> = rev (rev ?d)"
    by (simp only: takeWhile_dropWhile_id)
  finally have "?d = strip_ascii s @ ?b" by simp
  then have "s = ?a @ strip_ascii s @ ?b"
    by (metis takeWhile_dropWhile_id)
  moreover have "CHR ''{'' \<notin> set ?a" "CHR ''}'' \<notin> set ?a"
    using nb space_set [of s] by auto
  moreover have "CHR ''{'' \<notin> set ?b" "CHR ''}'' \<notin> set ?b"
    using nb space_set [of "rev ?d"] by auto
  ultimately show "\<exists>a b. s = a @ strip_ascii s @ b \<and>
        CHR ''{'' \<notin> set a \<and> CHR ''}'' \<notin> set a \<and> CHR ''{'' \<notin> set b \<and> CHR ''}'' \<notin> set b"
    by blast
qed

theorem embedded_object_round_trip_witness:
  \<open>strips_outside_braces (str_strip ascii_lib) \<and>
   CHR ''{'' \<notin> set (''Sure! ```json'' @ [CHR 0x0A]) \<and>
   CHR ''}'' \<notin> set ([CHR 0x0A] @ ''```'') \<and>
   \<not> contains ''```'' ''"score":90,"stars":5,"message":"m","what_you_did_well":"w","improvement_tip":{"better_way":"b"}'' \<and>
   final_assessment ascii_lib (Returns ((''Sure! ```json'' @ [CHR 0x0A]) @ CHR ''{'' #
       ''"score":90,"stars":5,"message":"m","what_you_did_well":"w","improvement_tip":{"better_way":"b"}'' @
       CHR ''}'' # ([CHR 0x0A] @ ''```''))) =
     JObj [(''score'', JInt 90), (''stars'', JInt 5), (''message'', JStr ''m''),
           (''what_you_did_well'', JStr ''w''),
           (''improvement_tip'', JObj [(''better_way'', JStr ''b'')])]\<close>
proof -
  have h1: "strips_outside_braces (str_strip ascii_lib)"
    by (simp add: ascii_lib_def strip_ascii_outside_braces)
  have h2: "CHR ''{'' \<notin> set (''Sure! ```json'' @ [CHR 0x0A])"
    by simp
  have h3: "CHR ''}'' \<notin> set ([CHR 0x0A] @ ''```'')"
    by simp
  have h4: \<open>\<not> contains ''```'' ''"score":90,"stars":5,"message":"m","what_you_did_well":"w","improvement_tip":{"better_way":"b"}''\<close>
    by code_simp
  have h5: \<open>json_loads ascii_lib (CHR ''{'' #
      ''"score":90,"stars":5,"message":"m","what_you_did_well":"w","improvement_tip":{"better_way":"b"}'' @
      [CHR ''}'']) =
     Inr (JObj [(''score'', JInt 90), (''stars'', JInt 5), (''message'', JStr ''m''),
           (''what_you_did_well'', JStr ''w''),
           (''improvement_tip'', JObj [(''better_way'', JStr ''b'')])])\<close>
    by code_simp
  have h6: "all_in required_fields
     (JObj [(''score'', JInt 90), (''stars'', JInt 5), (''message'', JStr ''m''),
           (''what_you_did_well'', JStr ''w''),
           (''improvement_tip'', JObj [(''better_way'', JStr ''b'')])]) = Inr True"
    by code_simp
  from embedded_object_round_trip [OF h1 h2 h3 h4 h5 h6] h1 h2 h3 h4
  show ?thesis by blast
qed

text \<open>
  Against C5 as stated: with braces in the prose before the fence the candidate is not
  the embedded object and the exception handler's assessment is returned; and a fence
  marker inside a string of the object is removed from the value.
\<close>

theorem prose_with_braces_counterexample:
  \<open>loads_ascii ''{"score":90,"stars":5,"message":"m","what_you_did_well":"w","improvement_tip":{}}'' =
     Inr (JObj [(''score'', JInt 90), (''stars'', JInt 5), (''message'', JStr ''m''),
                (''what_you_did_well'', JStr ''w''), (''improvement_tip'', JObj [])]) \<and>
   final_assessment ascii_lib (Returns (''Result {final}: ```json'' @ [CHR 0x0A] @
       ''{"score":90,"stars":5,"message":"m","what_you_did_well":"w","improvement_tip":{}}'' @
       [CHR 0x0A] @ ''``` Well done.'')) = except_assessment \<and>
   final_assessment ascii_lib (Returns (''```json'' @ [CHR 0x0A] @
       ''{"score":90,"stars":5,"message":"use ```json","what_you_did_well":"w","improvement_tip":{}}'' @
       [CHR 0x0A] @ ''```'')) =
     JObj [(''score'', JInt 90), (''stars'', JInt 5), (''message'', JStr ''use ''),
           (''what_you_did_well'', JStr ''w''), (''improvement_tip'', JObj [])]\<close>
  by code_simp

end
